theory Spec2Isabelle
  imports Main
begin

section \<open>Values, exceptions and byte strings\<close>

text \<open>
  The server of \<^verbatim>\<open>skeleton.py\<close> speaks a type-tagged, line-framed protocol. This theory
  embeds its codec (\<^verbatim>\<open>ProtocolHandler\<close>), its command table and store operations
  (\<^verbatim>\<open>Server\<close>) and its per-connection loop (\<^verbatim>\<open>Server.connection_handler\<close>).

  Byte strings are \<^typ>\<open>string\<close> (lists of 8-bit characters). A Python \<^verbatim>\<open>str\<close> is
  represented by its UTF-8 encoding, so \<^verbatim>\<open>s.encode('utf-8')\<close> is the identity on the
  representation and \<^verbatim>\<open>b.decode('utf-8')\<close> succeeds exactly on the byte strings accepted
  by \<open>utf8_valid\<close>. A \<^verbatim>\<open>dict\<close> is an association list in insertion order.

  The values are the Python objects the decoder can build and the encoder accepts.
\<close>

datatype pyval =
    PyStr string
  | PyBytes string
  | PyInt int
  | PyError string
  | PyList "pyval list"
  | PyDict "(pyval \<times> pyval) list"
  | PyNone

text \<open>
  Exceptions of the source: its own two classes, and the built-in ones its statements raise.
\<close>

datatype exn =
    Disconnect
  | CommandError string
  | ValueError
  | UnicodeDecodeError
  | TypeError
  | AttributeError
  | StopIteration

abbreviation CR :: char where "CR \<equiv> CHR 0x0D"
abbreviation LF :: char where "LF \<equiv> CHR 0x0A"

definition CRLF :: string where
  "CRLF = [CR, LF]"

subsection \<open>Library functions on bytes\<close>

text \<open>Strict UTF-8 as \<^verbatim>\<open>bytes.decode('utf-8')\<close> accepts it, on the byte codes.\<close>

definition cont :: "nat \<Rightarrow> bool" where
  "cont b = (0x80 \<le> b \<and> b \<le> 0xBF)"

fun utf8_codes :: "nat list \<Rightarrow> bool" where
  "utf8_codes [] = True"
| "utf8_codes (a # bs) =
     (if a < 0x80 then utf8_codes bs
      else if 0xC2 \<le> a \<and> a \<le> 0xDF then
        (case bs of b # r \<Rightarrow> cont b \<and> utf8_codes r | _ \<Rightarrow> False)
      else if 0xE0 \<le> a \<and> a \<le> 0xEF then
        (case bs of b # c # r \<Rightarrow>
           (if a = 0xE0 then 0xA0 \<le> b \<and> b \<le> 0xBF
            else if a = 0xED then 0x80 \<le> b \<and> b \<le> 0x9F
            else cont b) \<and> cont c \<and> utf8_codes r
         | _ \<Rightarrow> False)
      else if 0xF0 \<le> a \<and> a \<le> 0xF4 then
        (case bs of b # c # d # r \<Rightarrow>
           (if a = 0xF0 then 0x90 \<le> b \<and> b \<le> 0xBF
            else if a = 0xF4 then 0x80 \<le> b \<and> b \<le> 0x8F
            else cont b) \<and> cont c \<and> cont d \<and> utf8_codes r
         | _ \<Rightarrow> False)
      else False)"

definition utf8_valid :: "string \<Rightarrow> bool" where
  "utf8_valid s = utf8_codes (map of_char s)"

text \<open>\<^verbatim>\<open>readline()\<close>: up to and including the first LF, or to the end of the stream.\<close>

fun readline :: "string \<Rightarrow> string \<times> string" where
  "readline [] = ([], [])"
| "readline (c # cs) =
     (if c = LF then ([c], cs)
      else (case readline cs of (l, r) \<Rightarrow> (c # l, r)))"

text \<open>\<^verbatim>\<open>line.rstrip(b'\r\n')\<close>: drop every trailing CR and LF.\<close>

definition rstrip :: "string \<Rightarrow> string" where
  "rstrip s = rev (dropWhile (\<lambda>c. c = CR \<or> c = LF) (rev s))"

text \<open>
  \<^verbatim>\<open>int(b)\<close> on bytes, base 10: surrounding ASCII whitespace is skipped, one sign is
  allowed, and the digits may be grouped by single underscores.
\<close>

definition isspace :: "char \<Rightarrow> bool" where
  "isspace c = (c \<in> set [CHR 0x20, CHR 0x09, LF, CHR 0x0B, CHR 0x0C, CR])"

definition isdigit :: "char \<Rightarrow> bool" where
  "isdigit c = (48 \<le> (of_char c :: nat) \<and> (of_char c :: nat) \<le> 57)"

definition digit_val :: "char \<Rightarrow> nat" where
  "digit_val c = (of_char c :: nat) - 48"

fun digits :: "nat \<Rightarrow> string \<Rightarrow> nat option" where
  "digits acc [] = Some acc"
| "digits acc (c # cs) =
     (if isdigit c then digits (acc * 10 + digit_val c) cs
      else if c = CHR ''_'' then
        (case cs of d # _ \<Rightarrow> if isdigit d then digits acc cs else None | [] \<Rightarrow> None)
      else None)"

definition unsigned :: "string \<Rightarrow> nat option" where
  "unsigned s =
     (case s of [] \<Rightarrow> None
      | c # cs \<Rightarrow> if isdigit c then digits (digit_val c) cs else None)"

definition py_int :: "string \<Rightarrow> int option" where
  "py_int s =
     (let t = rev (dropWhile isspace (rev (dropWhile isspace s)))
      in case t of
           [] \<Rightarrow> None
         | c # cs \<Rightarrow>
             if c = CHR ''-'' then map_option (\<lambda>n. - int n) (unsigned cs)
             else if c = CHR ''+'' then map_option int (unsigned cs)
             else map_option int (unsigned t))"

text \<open>\<^verbatim>\<open>b'%d' % n\<close>: the decimal digits, with a minus sign for a negative number.\<close>

fun show_nat :: "nat \<Rightarrow> string" where
  "show_nat n =
     (if n < 10 then [char_of (48 + n)]
      else show_nat (n div 10) @ [char_of (48 + n mod 10)])"

definition show_int :: "int \<Rightarrow> string" where
  "show_int i = (if i < 0 then CHR ''-'' # show_nat (nat (- i)) else show_nat (nat i))"

section \<open>Dictionaries\<close>

text \<open>
  A \<^verbatim>\<open>dict\<close> accepts only hashable keys: lists and dicts are refused with
  \<^verbatim>\<open>TypeError\<close>; \<^verbatim>\<open>str\<close>, \<^verbatim>\<open>bytes\<close>, \<^verbatim>\<open>int\<close>, \<^verbatim>\<open>None\<close> and the named tuple
  \<^verbatim>\<open>Error\<close> (of a \<^verbatim>\<open>str\<close>) are hashable. On these values Python's key equality is
  equality of the values. \<^verbatim>\<open>d[k] = v\<close> keeps the position of a key that is already there
  and appends a new one.
\<close>

fun hashable :: "pyval \<Rightarrow> bool" where
  "hashable (PyList _) = False"
| "hashable (PyDict _) = False"
| "hashable _ = True"

type_synonym dict = "(pyval \<times> pyval) list"

fun dict_set :: "dict \<Rightarrow> pyval \<Rightarrow> pyval \<Rightarrow> dict" where
  "dict_set [] k v = [(k, v)]"
| "dict_set ((k', v') # d) k v =
     (if k' = k then (k', v) # d else (k', v') # dict_set d k v)"

text \<open>\<^verbatim>\<open>dict(pairs)\<close>, continuing from the entries inserted so far.\<close>

fun dict_of :: "dict \<Rightarrow> (pyval \<times> pyval) list \<Rightarrow> exn + dict" where
  "dict_of d [] = Inr d"
| "dict_of d ((k, v) # ps) =
     (if hashable k then dict_of (dict_set d k v) ps else Inl TypeError)"

text \<open>\<^verbatim>\<open>zip(items[0::2], items[1::2])\<close>: consecutive elements paired; an odd last one is dropped.\<close>

fun pairs :: "'a list \<Rightarrow> ('a \<times> 'a) list" where
  "pairs (k # v # xs) = (k, v) # pairs xs"
| "pairs _ = []"

section \<open>The wire codec: \<^verbatim>\<open>ProtocolHandler\<close>\<close>

text \<open>
  The socket file is the list of bytes the peer sends before it closes the connection: a
  read at the end of the list is a read at end of stream. Each handler returns the decoded
  value with the rest of the stream, or the exception it raises.
\<close>

definition decode_utf8 :: "string \<Rightarrow> exn + string" where
  "decode_utf8 b = (if utf8_valid b then Inr b else Inl UnicodeDecodeError)"

definition handle_simple_string :: "string \<Rightarrow> exn + pyval \<times> string" where
  "handle_simple_string sf =
     (case readline sf of (line, sf') \<Rightarrow>
        (case decode_utf8 (rstrip line) of
           Inl e \<Rightarrow> Inl e
         | Inr s \<Rightarrow> Inr (PyStr s, sf')))"

definition handle_error :: "string \<Rightarrow> exn + pyval \<times> string" where
  "handle_error sf =
     (case readline sf of (line, sf') \<Rightarrow>
        (case decode_utf8 (rstrip line) of
           Inl e \<Rightarrow> Inl e
         | Inr s \<Rightarrow> Inr (PyError s, sf')))"

definition handle_integer :: "string \<Rightarrow> exn + pyval \<times> string" where
  "handle_integer sf =
     (case readline sf of (line, sf') \<Rightarrow>
        (case py_int (rstrip line) of
           None \<Rightarrow> Inl ValueError
         | Some n \<Rightarrow> Inr (PyInt n, sf')))"

text \<open>
  \<^verbatim>\<open>read(n)\<close> of the buffered file: up to \<open>n\<close> bytes, fewer only at the end of the
  stream; everything that is left for \<open>n = -1\<close>; \<^verbatim>\<open>ValueError\<close> below that.
\<close>

definition read :: "int \<Rightarrow> string \<Rightarrow> exn + string \<times> string" where
  "read n sf =
     (if n < - 1 then Inl ValueError
      else if n = - 1 then Inr (sf, [])
      else Inr (take (nat n) sf, drop (nat n) sf))"

text \<open>
  \<^verbatim>\<open>handle_string\<close> reads \<open>length + 2\<close> bytes and drops the last two of what it got
  (\<^verbatim>\<open>data[:-2]\<close>); it does not look at them.
\<close>

definition handle_string :: "string \<Rightarrow> exn + pyval \<times> string" where
  "handle_string sf =
     (case readline sf of (length_line, sf') \<Rightarrow>
        (case py_int (rstrip length_line) of
           None \<Rightarrow> Inl ValueError
         | Some len \<Rightarrow>
             if len = - 1 then Inr (PyNone, sf')
             else
               (case read (len + 2) sf' of
                  Inl e \<Rightarrow> Inl e
                | Inr (data, sf'') \<Rightarrow>
                    (let s = take (length data - 2) data
                     in (case decode_utf8 s of
                           Inr t \<Rightarrow> Inr (PyStr t, sf'')
                         | Inl _ \<Rightarrow> Inr (PyBytes s, sf''))))))"

text \<open>
  \<^verbatim>\<open>handle_request\<close> dispatches on the tag byte; \<^verbatim>\<open>handle_array\<close> and
  \<^verbatim>\<open>handle_dict\<close> call it again for each element. \<open>handle_requests n\<close> is the
  comprehension \<^verbatim>\<open>[self.handle_request(socket_file) for _ in range(n)]\<close>; a negative
  count gives an empty range. \<^verbatim>\<open>dict(zip(...))\<close> inserts the pairs in order.
\<close>

function handle_request :: "string \<Rightarrow> exn + pyval \<times> string"
  and handle_array :: "string \<Rightarrow> exn + pyval \<times> string"
  and handle_dict :: "string \<Rightarrow> exn + pyval \<times> string"
  and handle_requests :: "nat \<Rightarrow> string \<Rightarrow> exn + pyval list \<times> string"
where
  "handle_request sf =
     (case sf of
        [] \<Rightarrow> Inl Disconnect
      | first_byte # sf' \<Rightarrow>
          if first_byte = CHR ''+'' then handle_simple_string sf'
          else if first_byte = CHR ''-'' then handle_error sf'
          else if first_byte = CHR '':'' then handle_integer sf'
          else if first_byte = CHR ''$'' then handle_string sf'
          else if first_byte = CHR ''*'' then handle_array sf'
          else if first_byte = CHR ''%'' then handle_dict sf'
          else Inl (CommandError ''bad request''))"
| "handle_array sf =
     (case readline sf of (length_line, sf') \<Rightarrow>
        (case py_int (rstrip length_line) of
           None \<Rightarrow> Inl ValueError
         | Some num \<Rightarrow>
             (case handle_requests (nat num) sf' of
                Inl e \<Rightarrow> Inl e
              | Inr (items, sf'') \<Rightarrow> Inr (PyList items, sf''))))"
| "handle_dict sf =
     (case readline sf of (length_line, sf') \<Rightarrow>
        (case py_int (rstrip length_line) of
           None \<Rightarrow> Inl ValueError
         | Some num \<Rightarrow>
             (case handle_requests (nat (num * 2)) sf' of
                Inl e \<Rightarrow> Inl e
              | Inr (items, sf'') \<Rightarrow>
                  (case dict_of [] (pairs items) of
                     Inl e \<Rightarrow> Inl e
                   | Inr d \<Rightarrow> Inr (PyDict d, sf'')))))"
| "handle_requests 0 sf = Inr ([], sf)"
| "handle_requests (Suc n) sf =
     (case handle_request sf of
        Inl e \<Rightarrow> Inl e
      | Inr (item, sf') \<Rightarrow>
          (case handle_requests n sf' of
             Inl e \<Rightarrow> Inl e
           | Inr (items, sf'') \<Rightarrow> Inr (item # items, sf'')))"
  by pat_completeness auto


subsection \<open>The decoder terminates: every frame consumes its tag byte\<close>

lemma readline_length: "readline sf = (l, r) \<Longrightarrow> length r \<le> length sf"
  by (induction sf arbitrary: l r) (auto split: if_splits prod.splits)

lemma handle_simple_string_length:
  "handle_simple_string sf = Inr (v, r) \<Longrightarrow> length r \<le> length sf"
  by (auto simp: handle_simple_string_def dest: readline_length split: prod.splits sum.splits)

lemma handle_error_length: "handle_error sf = Inr (v, r) \<Longrightarrow> length r \<le> length sf"
  by (auto simp: handle_error_def dest: readline_length split: prod.splits sum.splits)

lemma handle_integer_length: "handle_integer sf = Inr (v, r) \<Longrightarrow> length r \<le> length sf"
  by (auto simp: handle_integer_def dest: readline_length split: prod.splits option.splits)

lemma read_length: "read n sf = Inr (d, r) \<Longrightarrow> length r \<le> length sf"
  by (auto simp: read_def split: if_splits)

lemma handle_string_length: "handle_string sf = Inr (v, r) \<Longrightarrow> length r \<le> length sf"
  by (fastforce simp: handle_string_def Let_def dest: readline_length read_length
      split: prod.splits option.splits if_splits sum.splits)

lemma handle_request_length_p:
  "handle_request_handle_array_handle_dict_handle_requests_dom (Inl (Inl sf)) \<Longrightarrow>
     (\<forall>v r. handle_request sf = Inr (v, r) \<longrightarrow> length r < length sf)"
  "handle_request_handle_array_handle_dict_handle_requests_dom (Inl (Inr sf1)) \<Longrightarrow>
     (\<forall>v r. handle_array sf1 = Inr (v, r) \<longrightarrow> length r \<le> length sf1)"
  "handle_request_handle_array_handle_dict_handle_requests_dom (Inr (Inl sf2)) \<Longrightarrow>
     (\<forall>v r. handle_dict sf2 = Inr (v, r) \<longrightarrow> length r \<le> length sf2)"
  "handle_request_handle_array_handle_dict_handle_requests_dom (Inr (Inr (n, sf3))) \<Longrightarrow>
     (\<forall>vs r. handle_requests n sf3 = Inr (vs, r) \<longrightarrow> length r \<le> length sf3)"
proof (induct rule: handle_request_handle_array_handle_dict_handle_requests.pinduct)
  case (1 sf)
  show ?case
  proof (intro allI impI)
    fix v r assume eq: "handle_request sf = Inr (v, r)"
    from eq "1.hyps"(1) obtain c sf' where sf: "sf = c # sf'"
      by (cases sf) (auto simp: handle_request.psimps)
    from eq "1.hyps"(1) sf have
      "(c = CHR ''+'' \<and> handle_simple_string sf' = Inr (v, r))
       \<or> (c \<noteq> CHR ''+'' \<and> c = CHR ''-'' \<and> handle_error sf' = Inr (v, r))
       \<or> (c \<noteq> CHR ''+'' \<and> c = CHR '':'' \<and> handle_integer sf' = Inr (v, r))
       \<or> (c \<noteq> CHR ''+'' \<and> c = CHR ''$'' \<and> handle_string sf' = Inr (v, r))
       \<or> (c \<noteq> CHR ''+'' \<and> c = CHR ''*'' \<and> handle_array sf' = Inr (v, r))
       \<or> (c \<noteq> CHR ''+'' \<and> c \<noteq> CHR ''*'' \<and> c = CHR ''%'' \<and> handle_dict sf' = Inr (v, r))"
      by (simp add: handle_request.psimps split: if_splits)
    then have "length r \<le> length sf'"
      using handle_simple_string_length handle_error_length handle_integer_length
        handle_string_length "1.hyps"(2)[OF sf] "1.hyps"(3)[OF sf]
      by blast
    then show "length r < length sf" by (simp add: sf)
  qed
next
  case (2 sf)
  show ?case
  proof (intro allI impI)
    fix v r assume eq: "handle_array sf = Inr (v, r)"
    obtain l sf' where rl: "readline sf = (l, sf')" by (cases "readline sf")
    from eq "2.hyps"(1) rl obtain num where num: "py_int (rstrip l) = Some num"
      by (cases "py_int (rstrip l)") (auto simp: handle_array.psimps)
    from eq "2.hyps"(1) rl num obtain items where
      "handle_requests (nat num) sf' = Inr (items, r)"
      by (auto simp: handle_array.psimps split: sum.splits)
    with "2.hyps"(2)[OF rl[symmetric] num] have "length r \<le> length sf'" by blast
    with readline_length[OF rl] show "length r \<le> length sf" by simp
  qed
next
  case (3 sf)
  show ?case
  proof (intro allI impI)
    fix v r assume eq: "handle_dict sf = Inr (v, r)"
    obtain l sf' where rl: "readline sf = (l, sf')" by (cases "readline sf")
    from eq "3.hyps"(1) rl obtain num where num: "py_int (rstrip l) = Some num"
      by (cases "py_int (rstrip l)") (auto simp: handle_dict.psimps)
    from eq "3.hyps"(1) rl num obtain items where
      "handle_requests (nat (num * 2)) sf' = Inr (items, r)"
      by (auto simp: handle_dict.psimps split: sum.splits)
    with "3.hyps"(2)[OF rl[symmetric] num] have "length r \<le> length sf'" by blast
    with readline_length[OF rl] show "length r \<le> length sf" by simp
  qed
next
  case (4 sf)
  then show ?case by (simp add: handle_requests.psimps)
next
  case (5 n sf)
  show ?case
  proof (intro allI impI)
    fix vs r assume eq: "handle_requests (Suc n) sf = Inr (vs, r)"
    from eq "5.hyps"(1) obtain item sf' where hr: "handle_request sf = Inr (item, sf')"
      by (cases "handle_request sf") (auto simp: handle_requests.psimps)
    from eq "5.hyps"(1) hr obtain items where "handle_requests n sf' = Inr (items, r)"
      by (auto simp: handle_requests.psimps split: sum.splits)
    with "5.hyps"(3)[OF hr refl] have "length r \<le> length sf'" by blast
    moreover from "5.hyps"(2) hr have "length sf' < length sf" by blast
    ultimately show "length r \<le> length sf" by simp
  qed
qed


lemma handle_request_dom:
  "\<forall>x. handle_request_handle_array_handle_dict_handle_requests_dom x"
proof (relation "inv_image (less_than <*lex*> less_than <*lex*> less_than)
     (\<lambda>x. case x of Inl (Inl sf) \<Rightarrow> (length sf, 0::nat, 0::nat)
        | Inl (Inr sf) \<Rightarrow> (length sf, 2, 0)
        | Inr (Inl sf) \<Rightarrow> (length sf, 2, 0)
        | Inr (Inr (n, sf)) \<Rightarrow> (length sf, 1, n))", goal_cases)
  case 1
  show ?case by (intro wf_inv_image wf_lex_prod wf_less_than)
next
  case (2 sf x21 x22)
  then show ?case by simp
next
  case (3 sf x21 x22)
  then show ?case by simp
next
  case (4 sf x y x2)
  from readline_length[OF this(1)[symmetric]] show ?case by auto
next
  case (5 sf x y x2)
  from readline_length[OF this(1)[symmetric]] show ?case by auto
next
  case (6 n sf)
  show ?case by simp
next
  case (7 n sf b x y)
  from handle_request_length_p(1)[OF this(3)] this(1,2) have "length y < length sf"
    by auto
  then show ?case by simp
qed

termination handle_request
  using handle_request_dom by blast

declare handle_request.simps [simp del] handle_array.simps [simp del]
  handle_dict.simps [simp del]

lemma handle_request_length:
  "handle_request sf = Inr (v, r) \<Longrightarrow> length r < length sf"
  using handle_request_length_p(1)[OF handle_request_dom[THEN spec]] by simp

subsection \<open>Encoding: \<^verbatim>\<open>_write\<close>\<close>

text \<open>
  The branches of \<^verbatim>\<open>_write\<close> in the source's order: \<^verbatim>\<open>str\<close> (encoded to bytes first)
  and \<^verbatim>\<open>bytes\<close> as a bulk string, \<^verbatim>\<open>int\<close>, \<^verbatim>\<open>Error\<close>, list, dict, \<^verbatim>\<open>None\<close>. Its last
  branch raises for any other type; no value of \<^typ>\<open>pyval\<close> reaches it.
\<close>

fun "write" :: "pyval \<Rightarrow> string" where
  "write (PyStr s) = CHR ''$'' # show_int (int (length s)) @ CRLF @ s @ CRLF"
| "write (PyBytes b) = CHR ''$'' # show_int (int (length b)) @ CRLF @ b @ CRLF"
| "write (PyInt n) = CHR '':'' # show_int n @ CRLF"
| "write (PyError message) = CHR ''-'' # message @ CRLF"
| "write (PyList xs) =
     CHR ''*'' # show_int (int (length xs)) @ CRLF @ concat (map write xs)"
| "write (PyDict d) =
     CHR ''%'' # show_int (int (length d)) @ CRLF
       @ concat (map (\<lambda>(k, v). write k @ write v) d)"
| "write PyNone = ''$-1'' @ CRLF"

section \<open>The store and its commands: \<^verbatim>\<open>Server\<close>\<close>

text \<open>
  \<^verbatim>\<open>str.upper()\<close> and \<^verbatim>\<open>str.split()\<close> follow the interpreter's Unicode tables, which are
  not part of the repository: they are parameters of the model, and every theorem below
  holds for all of them. \<open>ascii_ops\<close> is the instance that agrees with Python on ASCII
  text. \<^verbatim>\<open>bytes.split()\<close> splits at runs of ASCII whitespace.
\<close>

record str_ops =
  str_upper :: "string \<Rightarrow> string"
  str_split :: "string \<Rightarrow> string list"

function bytes_split :: "string \<Rightarrow> string list" where
  "bytes_split [] = []"
| "bytes_split (c # cs) =
     (if isspace c then bytes_split cs
      else (c # takeWhile (\<lambda>x. \<not> isspace x) cs)
             # bytes_split (dropWhile (\<lambda>x. \<not> isspace x) cs))"
  by pat_completeness auto
termination
  by (relation "measure length") (auto simp: length_dropWhile_le less_Suc_eq_le)

definition ascii_upper :: "string \<Rightarrow> string" where
  "ascii_upper s =
     map (\<lambda>c. if 97 \<le> (of_char c :: nat) \<and> (of_char c :: nat) \<le> 122
                then char_of ((of_char c :: nat) - 32) else c) s"

definition ascii_ops :: str_ops where
  "ascii_ops = \<lparr>str_upper = ascii_upper, str_split = bytes_split\<rparr>"

text \<open>
  A command handler receives the store and the argument list \<^verbatim>\<open>data[1:]\<close> and returns
  its result or the exception it raises, with the store as it has left it. A call with the
  wrong number of arguments, and an unhashable key, raise \<^verbatim>\<open>TypeError\<close>.
\<close>

type_synonym handler = "dict \<Rightarrow> pyval list \<Rightarrow> (exn + pyval) \<times> dict"

text \<open>\<^verbatim>\<open>self._kv.get(key)\<close>: the value, or \<^verbatim>\<open>None\<close>.\<close>

definition dict_get :: "dict \<Rightarrow> pyval \<Rightarrow> pyval" where
  "dict_get d k = (case map_of d k of None \<Rightarrow> PyNone | Some v \<Rightarrow> v)"

text \<open>\<^verbatim>\<open>d.pop(key, default)\<close>: the value removed, or the default.\<close>

definition dict_pop :: "dict \<Rightarrow> pyval \<Rightarrow> pyval \<Rightarrow> pyval \<times> dict" where
  "dict_pop d k dflt =
     (case map_of d k of
        None \<Rightarrow> (dflt, d)
      | Some v \<Rightarrow> (v, filter (\<lambda>(k', _). k' \<noteq> k) d))"

definition get :: handler where
  "get kv args =
     (case args of
        [key] \<Rightarrow> if hashable key then (Inr (dict_get kv key), kv) else (Inl TypeError, kv)
      | _ \<Rightarrow> (Inl TypeError, kv))"

definition set_cmd :: handler where
  "set_cmd kv args =
     (case args of
        [key, val] \<Rightarrow>
          if hashable key then (Inr (PyInt 1), dict_set kv key val)
          else (Inl TypeError, kv)
      | _ \<Rightarrow> (Inl TypeError, kv))"

definition delete :: handler where
  "delete kv args =
     (case args of
        [key] \<Rightarrow>
          if hashable key
          then (case dict_pop kv key PyNone of
                  (v, kv') \<Rightarrow> (Inr (if v \<noteq> PyNone then PyInt 1 else PyInt 0), kv'))
          else (Inl TypeError, kv)
      | _ \<Rightarrow> (Inl TypeError, kv))"

definition flush :: handler where
  "flush kv args =
     (case args of
        [] \<Rightarrow> (Inr (PyInt (int (length kv))), [])
      | _ \<Rightarrow> (Inl TypeError, kv))"

text \<open>\<^verbatim>\<open>[self._kv.get(k) for k in keys]\<close>, from the first key on.\<close>

fun mget_loop :: "dict \<Rightarrow> pyval list \<Rightarrow> exn + pyval list" where
  "mget_loop kv [] = Inr []"
| "mget_loop kv (k # keys) =
     (if hashable k
      then (case mget_loop kv keys of
              Inl e \<Rightarrow> Inl e
            | Inr vs \<Rightarrow> Inr (dict_get kv k # vs))
      else Inl TypeError)"

definition mget :: handler where
  "mget kv keys =
     (case mget_loop kv keys of Inl e \<Rightarrow> (Inl e, kv) | Inr vs \<Rightarrow> (Inr (PyList vs), kv))"

text \<open>
  The loop of \<^verbatim>\<open>mset\<close>: \<^verbatim>\<open>for k in it\<close> takes a key, \<^verbatim>\<open>next(it)\<close> its value and raises
  \<^verbatim>\<open>StopIteration\<close> when the key was the last item.
\<close>

fun mset_loop :: "dict \<Rightarrow> pyval list \<Rightarrow> int \<Rightarrow> (exn + pyval) \<times> dict" where
  "mset_loop kv [] count = (Inr (PyInt count), kv)"
| "mset_loop kv [k] count = (Inl StopIteration, kv)"
| "mset_loop kv (k # v # it) count =
     (if hashable k then mset_loop (dict_set kv k v) it (count + 1)
      else (Inl TypeError, kv))"

definition mset :: handler where
  "mset kv items = mset_loop kv items 0"

definition get_commands :: "(string \<times> handler) list" where
  "get_commands =
     [(''GET'', get), (''SET'', set_cmd), (''DELETE'', delete),
      (''FLUSH'', flush), (''MGET'', mget), (''MSET'', mset)]"

text \<open>
  \<^verbatim>\<open>get_response\<close>, in three steps. A request that is not a list is split at whitespace:
  only \<^verbatim>\<open>str\<close> and \<^verbatim>\<open>bytes\<close> have \<^verbatim>\<open>split\<close>, and the \<^verbatim>\<open>AttributeError\<close> of the others is
  turned into a \<^verbatim>\<open>CommandError\<close>.
\<close>

definition request_list :: "str_ops \<Rightarrow> pyval \<Rightarrow> exn + pyval list" where
  "request_list U data =
     (case data of
        PyList xs \<Rightarrow> Inr xs
      | PyStr s \<Rightarrow> Inr (map PyStr (str_split U s))
      | PyBytes b \<Rightarrow> Inr (map PyBytes (bytes_split b))
      | _ \<Rightarrow> Inl (CommandError ''Request must be list or simple string''))"

text \<open>
  The first token is decoded if it is \<^verbatim>\<open>bytes\<close> and upper-cased; only a \<^verbatim>\<open>str\<close> has
  \<^verbatim>\<open>upper\<close>.
\<close>

definition command_name :: "str_ops \<Rightarrow> pyval \<Rightarrow> exn + string" where
  "command_name U cmd =
     (case cmd of
        PyBytes b \<Rightarrow>
          (case decode_utf8 b of Inl e \<Rightarrow> Inl e | Inr s \<Rightarrow> Inr (str_upper U s))
      | PyStr s \<Rightarrow> Inr (str_upper U s)
      | _ \<Rightarrow> Inl AttributeError)"

definition get_response :: "str_ops \<Rightarrow> dict \<Rightarrow> pyval \<Rightarrow> (exn + pyval) \<times> dict" where
  "get_response U kv data =
     (case request_list U data of
        Inl e \<Rightarrow> (Inl e, kv)
      | Inr [] \<Rightarrow> (Inl (CommandError ''Missing command''), kv)
      | Inr (c # args) \<Rightarrow>
          (case command_name U c of
             Inl e \<Rightarrow> (Inl e, kv)
           | Inr cmd \<Rightarrow>
               (case map_of get_commands cmd of
                  None \<Rightarrow> (Inl (CommandError (''Command not found: '' @ cmd)), kv)
                | Some h \<Rightarrow> h kv args)))"

section \<open>The connection loop: \<^verbatim>\<open>Server.connection_handler\<close>\<close>

text \<open>
  The loop ends by \<^verbatim>\<open>break\<close> on \<^verbatim>\<open>Disconnect\<close> (\<open>Closed\<close>) or by an exception that no
  handler catches (\<open>Crashed\<close>). Its result is what it has written to the peer, the store
  it leaves, and how it ended. Only \<^verbatim>\<open>Disconnect\<close> is caught around \<^verbatim>\<open>handle_request\<close>
  and only \<^verbatim>\<open>CommandError\<close> around \<^verbatim>\<open>get_response\<close>.
\<close>

datatype outcome = Closed | Crashed exn

function connection_handler ::
  "str_ops \<Rightarrow> string \<Rightarrow> dict \<Rightarrow> string \<times> dict \<times> outcome" where
  "connection_handler U sf kv =
     (case handle_request sf of
        Inl Disconnect \<Rightarrow> ([], kv, Closed)
      | Inl e \<Rightarrow> ([], kv, Crashed e)
      | Inr (data, sf') \<Rightarrow>
          (case get_response U kv data of
             (Inl (CommandError m), kv') \<Rightarrow>
               (case connection_handler U sf' kv' of
                  (out, st) \<Rightarrow> (write (PyError m) @ out, st))
           | (Inl e, kv') \<Rightarrow> ([], kv', Crashed e)
           | (Inr resp, kv') \<Rightarrow>
               (case connection_handler U sf' kv' of
                  (out, st) \<Rightarrow> (write resp @ out, st))))"
  by pat_completeness auto
termination
proof (relation "measure (\<lambda>(U, sf, kv). length sf)")
  show "wf (measure (\<lambda>(U, sf, kv). length sf))" by simp
next
  fix U :: str_ops and sf kv a b ya x2 and p :: "pyval \<times> string"
  assume "handle_request sf = Inr p" "(a, b) = p"
  then have "handle_request sf = Inr (a, b)" by simp
  from handle_request_length[OF this]
  show "((U, b, ya), U, sf, kv) \<in> measure (\<lambda>(U, sf, kv). length sf)" by simp
next
  fix U :: str_ops and sf kv a b ya and p :: "pyval \<times> string"
  assume "handle_request sf = Inr p" "(a, b) = p"
  then have "handle_request sf = Inr (a, b)" by simp
  from handle_request_length[OF this]
  show "((U, b, ya), U, sf, kv) \<in> measure (\<lambda>(U, sf, kv). length sf)" by simp
qed

declare connection_handler.simps [simp del]

section \<open>Store commands\<close>

lemma length_card_keys: "distinct (map fst kv) \<Longrightarrow> length kv = card (fst ` set kv)"
  by (metis distinct_card length_map set_map)

text \<open>
  C9. \<^verbatim>\<open>FLUSH\<close> returns the number of entries the store held before the call (the
  length of the dict, which is the number of its keys) and leaves the store empty: a
  lookup afterwards finds nothing and a second \<^verbatim>\<open>FLUSH\<close> returns 0. The same holds when
  the command is reached through \<^verbatim>\<open>get_response\<close> under any spelling that upper-cases
  to \<^verbatim>\<open>FLUSH\<close>.
\<close>

theorem flush_returns_prior_count:
  "flush kv [] = (Inr (PyInt (int (length kv))), [])
   \<and> (distinct (map fst kv) \<longrightarrow> length kv = card (fst ` set kv))
   \<and> get (snd (flush kv [])) [PyStr k] = (Inr PyNone, [])
   \<and> flush (snd (flush kv [])) [] = (Inr (PyInt 0), [])
   \<and> (command_name U c = Inr ''FLUSH'' \<longrightarrow>
        get_response U kv (PyList [c]) = (Inr (PyInt (int (length kv))), []))"
  by (simp add: flush_def get_def dict_get_def length_card_keys get_response_def
      request_list_def get_commands_def)

theorem flush_returns_prior_count_witness:
  "flush [(PyStr ''a'', PyInt 1), (PyStr ''b'', PyNone)] [] = (Inr (PyInt 2), [])
   \<and> get_response ascii_ops [(PyStr ''a'', PyInt 1), (PyStr ''b'', PyNone)]
         (PyList [PyStr ''flush'']) = (Inr (PyInt 2), [])"
proof -
  have c: "command_name ascii_ops (PyStr ''flush'') = Inr ''FLUSH''" by code_simp
  have d: "distinct (map fst [(PyStr ''a'', PyInt 1), (PyStr ''b'', PyNone)])" by simp
  from flush_returns_prior_count
    [of "[(PyStr ''a'', PyInt 1), (PyStr ''b'', PyNone)]" _ ascii_ops "PyStr ''flush''"] c d
  show ?thesis by simp
qed

text \<open>
  \<^verbatim>\<open>DELETE\<close> where it behaves as its table entry says: a key stored with a value other
  than \<^verbatim>\<open>None\<close> is removed with result 1, after which a second \<^verbatim>\<open>DELETE\<close> returns 0 and
  \<^verbatim>\<open>GET\<close> returns \<^verbatim>\<open>None\<close>; an absent key gives 0 and leaves the store as it was.
\<close>

lemma map_of_filter_key: "map_of (filter (\<lambda>(k', _). k' \<noteq> k) d) k = None"
  by (induction d) auto

lemma delete_present:
  assumes "hashable k" and "map_of kv k = Some v" and "v \<noteq> PyNone"
  shows "delete kv [k] = (Inr (PyInt 1), filter (\<lambda>(k', _). k' \<noteq> k) kv)"
    and "delete (snd (delete kv [k])) [k] = (Inr (PyInt 0), snd (delete kv [k]))"
    and "get (snd (delete kv [k])) [k] = (Inr PyNone, snd (delete kv [k]))"
  using assms by (simp_all add: delete_def dict_pop_def get_def dict_get_def map_of_filter_key)

lemma delete_absent:
  "hashable k \<Longrightarrow> map_of kv k = None \<Longrightarrow> delete kv [k] = (Inr (PyInt 0), kv)"
  by (simp add: delete_def dict_pop_def)

text \<open>
  C7. \<^verbatim>\<open>DELETE\<close> of a key that is present does not always return 1. \<^verbatim>\<open>delete\<close> tests
  \<^verbatim>\<open>self._kv.pop(key, None) is not None\<close>, so a key stored with the value \<^verbatim>\<open>None\<close>
  (a \<^verbatim>\<open>SET\<close> with the null bulk string \<^verbatim>\<open>$-1\<close>) is removed and reported as 0. The session
  below sends \<^verbatim>\<open>SET k <null>\<close> and \<^verbatim>\<open>DELETE k\<close>: the answers are \<^verbatim>\<open>:1\<close> and \<^verbatim>\<open>:0\<close>, and
  the store is empty at the end.
\<close>

theorem delete_of_null_value_returns_0:
  "connection_handler ascii_ops
     (''*3'' @ CRLF @ ''$3'' @ CRLF @ ''SET'' @ CRLF @ ''$1'' @ CRLF @ ''k'' @ CRLF @ ''$-1'' @ CRLF
      @ ''*2'' @ CRLF @ ''$6'' @ CRLF @ ''DELETE'' @ CRLF @ ''$1'' @ CRLF @ ''k'' @ CRLF) []
   = ('':1'' @ CRLF @ '':0'' @ CRLF, [], Closed)
   \<and> set_cmd [] [PyStr ''k'', PyNone] = (Inr (PyInt 1), [(PyStr ''k'', PyNone)])
   \<and> delete [(PyStr ''k'', PyNone)] [PyStr ''k''] = (Inr (PyInt 0), [])"
  by code_simp

end
